theory Spec2Isabelle
  imports Complex_Main
begin

section \<open>Values exchanged with the serverless functions\<close>

text \<open>
  The functions under \<^verbatim>\<open>functions/\<close> read their input with \<^verbatim>\<open>await req.json()\<close> and
  answer with \<^verbatim>\<open>JSON.stringify\<close>. A parsed JSON value is modelled by the datatype below;
  JavaScript's \<^verbatim>\<open>undefined\<close> (an absent property) is \<open>None\<close> of \<open>json option\<close>.
\<close>

datatype json =
    JNull
  | JBool bool
  | JNum real
  | JStr string
  | JArr "json list"
  | JObj "(string \<times> json) list"

text \<open>Property read \<^verbatim>\<open>v.k\<close> on a parsed value that is not \<^verbatim>\<open>null\<close>.\<close>

fun field :: "json \<Rightarrow> string \<Rightarrow> json option" where
  "field (JObj kvs) k = map_of kvs k"
| "field _ k = None"

text \<open>JavaScript truthiness of a possibly undefined parsed value.\<close>

fun truthy :: "json option \<Rightarrow> bool" where
  "truthy None = False"
| "truthy (Some JNull) = False"
| "truthy (Some (JBool b)) = b"
| "truthy (Some (JNum x)) = (x \<noteq> 0)"
| "truthy (Some (JStr s)) = (s \<noteq> [])"
| "truthy (Some (JArr xs)) = True"
| "truthy (Some (JObj kvs)) = True"

fun isArray :: "json option \<Rightarrow> bool" where
  "isArray (Some (JArr xs)) = True"
| "isArray _ = False"

text \<open>
  Conversion to a string, as a template literal \<^verbatim>\<open>${v}\<close> performs it, raises \<^verbatim>\<open>TypeError\<close>
  for some parsed values. An object with an own property \<^verbatim>\<open>toString\<close> has there a value
  that is not callable, and the inherited \<^verbatim>\<open>valueOf\<close> returns the object itself, so no
  primitive is found. An array is joined from the strings of its entries (\<^verbatim>\<open>null\<close>
  gives the empty string), so it raises when an entry does. Every other value converts:
  an object without an own \<^verbatim>\<open>toString\<close> gives \<^verbatim>\<open>[object Object]\<close> whatever it contains.
\<close>

fun to_string_throws :: "json \<Rightarrow> bool" where
  "to_string_throws (JObj kvs) = (map_of kvs ''toString'' \<noteq> None)"
| "to_string_throws (JArr xs) = list_ex to_string_throws xs"
| "to_string_throws JNull = False"
| "to_string_throws (JBool b) = False"
| "to_string_throws (JNum x) = False"
| "to_string_throws (JStr s) = False"

datatype js_error = TypeError string | URIError string

fun message :: "js_error \<Rightarrow> string" where
  "message (TypeError m) = m"
| "message (URIError m) = m"

definition not_primitive :: js_error where
  "not_primitive = TypeError ''Cannot convert object to primitive value''"

subsection \<open>Numbers\<close>

text \<open>
  JavaScript numbers are IEEE doubles. A double is represented by the real number it
  denotes. Comparisons, \<^verbatim>\<open>Math.abs\<close> and \<^verbatim>\<open>Math.min\<close> are exact on doubles; an addition,
  subtraction or multiplication returns the exact result rounded to a double. The rounding
  is the parameter \<open>rd\<close> of the functions that compute: \<^verbatim>\<open>a * b + c\<close> is
  \<open>rd (rd (a * b) + c)\<close>. What is proved for every \<open>rd\<close>, or for every \<open>rd\<close> that is
  monotone and leaves the doubles 0, 100, 500 and 600 as they are, holds for the rounding of
  the doubles. The literals \<^verbatim>\<open>0.1\<close>, \<^verbatim>\<open>0.2\<close> and \<^verbatim>\<open>5.99\<close> denote the doubles nearest to
  them, given below as fractions.
\<close>

definition d0_1 :: real where
  "d0_1 = 3602879701896397 / 36028797018963968"

definition d0_2 :: real where
  "d0_2 = 3602879701896397 / 18014398509481984"

definition d5_99 :: real where
  "d5_99 = 3372070220993659 / 562949953421312"

definition rounding :: "(real \<Rightarrow> real) \<Rightarrow> bool" where
  "rounding rd =
     ((\<forall>x y. x \<le> y \<longrightarrow> rd x \<le> rd y) \<and> rd 0 = 0 \<and> rd 100 = 100 \<and> rd 500 = 500 \<and> rd 600 = 600)"

text \<open>
  The examples use draws for which every intermediate result they state is a double, so that
  rounding leaves it as it is.
\<close>

definition exact :: "real \<Rightarrow> real" where
  "exact x = x"

text \<open>
  \<^verbatim>\<open>Math.random()\<close>: the \<open>k\<close>-th call made while one request is served returns \<open>rnd k\<close>;
  the functions below take the number of calls made so far and return the new count.
\<close>

type_synonym rng = "nat \<Rightarrow> real"

definition unit_range :: "rng \<Rightarrow> bool" where
  "unit_range rnd = (\<forall>k. 0 \<le> rnd k \<and> rnd k < 1)"

section \<open>The table of price alerts\<close>

text \<open>A row of \<^verbatim>\<open>price_alerts\<close>, as the details page creates it.\<close>

record alert_row =
  alert_id :: string
  user_id :: string
  alert_product_id :: string
  target_price :: real
  is_active :: string

section \<open>functions/update-prices/index.ts\<close>

record PriceUpdate =
  productId :: json
  storeId :: string
  oldPrice :: real
  newPrice :: real
  change :: real
  changePercent :: real

text \<open>The object pushed by \<^verbatim>\<open>checkPriceAlerts\<close> (typed \<^verbatim>\<open>any\<close> in the source).\<close>

record Notification =
  productId_n :: json
  storeId_n :: string
  alertType :: string
  oldPrice_n :: real
  newPrice_n :: real
  savings :: real

text \<open>Lines written to the console; the formatted text is kept as its parts.\<close>

datatype log_line =
    ErrorUpdatingPrices json
  | SendingNotifications nat
  | PriceAlertLine json real string
  | PriceUpdateError string

text \<open>
  \<^verbatim>\<open>updateProductPrices\<close>: the loop over the four simulated stores. Each store draws one
  random number; below 0.1 it draws two more, \<open>r2\<close> for the old price and \<open>r3\<close> for the
  relative change, and pushes the update built from them.
\<close>

definition relative_change :: "(real \<Rightarrow> real) \<Rightarrow> real \<Rightarrow> real" where
  "relative_change rd r3 = rd (rd (r3 - 1 / 2) * d0_2)"

definition simulated_update :: "(real \<Rightarrow> real) \<Rightarrow> json \<Rightarrow> string \<Rightarrow> real \<Rightarrow> real \<Rightarrow> PriceUpdate" where
  "simulated_update rd pid sid r2 r3 =
     (let old = rd (rd (r2 * 500) + 100);
          cp = relative_change rd r3;
          new = rd (old * rd (1 + cp))
      in \<lparr>productId = pid, storeId = sid, oldPrice = old, newPrice = new,
          change = rd (new - old), changePercent = rd (cp * 100)\<rparr>)"

fun store_loop :: "(real \<Rightarrow> real) \<Rightarrow> json \<Rightarrow> rng \<Rightarrow> string list \<Rightarrow> nat \<Rightarrow> PriceUpdate list
    \<Rightarrow> PriceUpdate list \<times> nat" where
  "store_loop rd pid rnd [] n updates = (updates, n)"
| "store_loop rd pid rnd (sid # rest) n updates =
     (if rnd n < d0_1 then
        store_loop rd pid rnd rest (n + 3)
          (updates @ [simulated_update rd pid sid (rnd (n + 1)) (rnd (n + 2))])
      else store_loop rd pid rnd rest (n + 1) updates)"

definition stores_sim :: "string list" where
  "stores_sim = [''amazon'', ''walmart'', ''target'', ''bestbuy'']"

definition updateProductPrices :: "(real \<Rightarrow> real) \<Rightarrow> json \<Rightarrow> rng \<Rightarrow> nat
    \<Rightarrow> PriceUpdate list \<times> nat" where
  "updateProductPrices rd pid rnd n = store_loop rd pid rnd stores_sim n []"

text \<open>
  \<^verbatim>\<open>checkPriceAlerts\<close>: one notification for each update whose change is below -10.
  The parameter \<^verbatim>\<open>productId\<close> is not read by the body; no alert table is queried.
\<close>

definition notification_of :: "PriceUpdate \<Rightarrow> Notification" where
  "notification_of u =
     \<lparr>productId_n = productId u, storeId_n = storeId u, alertType = ''price_drop'',
      oldPrice_n = oldPrice u, newPrice_n = newPrice u, savings = \<bar>change u\<bar>\<rparr>"

fun alert_loop :: "PriceUpdate list \<Rightarrow> Notification list \<Rightarrow> Notification list" where
  "alert_loop [] notifications = notifications"
| "alert_loop (u # us) notifications =
     (if change u < - 10 then alert_loop us (notifications @ [notification_of u])
      else alert_loop us notifications)"

definition checkPriceAlerts :: "json \<Rightarrow> PriceUpdate list \<Rightarrow> Notification list" where
  "checkPriceAlerts pid updates = alert_loop updates []"

text \<open>
  \<^verbatim>\<open>sendPriceAlertNotifications\<close> only logs. Its first line is the count; then one line for
  each notification, whose template converts the product id to a string: when that raises,
  the function stops with the error and the lines written so far.
\<close>

fun send_lines :: "Notification list \<Rightarrow> log_line list \<Rightarrow> js_error option \<times> log_line list" where
  "send_lines [] lines = (None, lines)"
| "send_lines (x # xs) lines =
     (if to_string_throws (productId_n x) then (Some not_primitive, lines)
      else send_lines xs
             (lines @ [PriceAlertLine (productId_n x) (newPrice_n x) (storeId_n x)]))"

definition sendPriceAlertNotifications :: "Notification list
    \<Rightarrow> js_error option \<times> log_line list" where
  "sendPriceAlertNotifications ns = send_lines ns [SendingNotifications (length ns)]"

text \<open>
  The alert step of a job for the updates of one product, as the handler performs it: the
  check, then the sending when there is something to send. The function has no access to
  the database: the table of alerts is carried through as it is, and the console is the
  only state that the step changes. The third component is the error raised, if any.
\<close>

record pipeline_state =
  alerts_table :: "alert_row list"
  console :: "log_line list"

definition alert_pass :: "pipeline_state \<Rightarrow> json \<Rightarrow> PriceUpdate list
    \<Rightarrow> Notification list \<times> pipeline_state \<times> js_error option" where
  "alert_pass s pid updates =
     (let notifications = checkPriceAlerts pid updates in
      if length notifications > 0 then
        (case sendPriceAlertNotifications notifications of
           (err, lines) \<Rightarrow> (notifications, s\<lparr>console := console s @ lines\<rparr>, err))
      else (notifications, s, None))"

text \<open>
  The loop of the handler over \<^verbatim>\<open>productIds\<close>. Nothing in the \<^verbatim>\<open>try\<close> block can raise
  (both callees are the total computations above), so its \<^verbatim>\<open>catch\<close> is never entered.
\<close>

fun product_loop :: "(real \<Rightarrow> real) \<Rightarrow> rng \<Rightarrow> json list \<Rightarrow> nat \<Rightarrow> PriceUpdate list
    \<Rightarrow> Notification list \<Rightarrow> PriceUpdate list \<times> Notification list \<times> nat" where
  "product_loop rd rnd [] n updates notifications = (updates, notifications, n)"
| "product_loop rd rnd (pid # pids) n updates notifications =
     (case updateProductPrices rd pid rnd n of
        (productUpdates, n') \<Rightarrow>
          product_loop rd rnd pids n' (updates @ productUpdates)
            (notifications @ checkPriceAlerts pid productUpdates))"

record Request =
  http_method :: string
  body :: "string + json"

record Response =
  status :: nat
  headers :: "(string \<times> string) list"
  payload :: "json option"

definition cors_headers :: "(string \<times> string) list" where
  "cors_headers =
     [(''Access-Control-Allow-Origin'', ''*''),
      (''Access-Control-Allow-Methods'', ''POST, GET, OPTIONS''),
      (''Access-Control-Allow-Headers'', ''Content-Type, Authorization'')]"

definition json_headers :: "(string \<times> string) list" where
  "json_headers =
     [(''Content-Type'', ''application/json''), (''Access-Control-Allow-Origin'', ''*'')]"

definition json_response :: "nat \<Rightarrow> json \<Rightarrow> Response" where
  "json_response st b = \<lparr>status = st, headers = json_headers, payload = Some b\<rparr>"

definition json_of_update :: "PriceUpdate \<Rightarrow> json" where
  "json_of_update u =
     JObj [(''productId'', productId u), (''storeId'', JStr (storeId u)),
           (''oldPrice'', JNum (oldPrice u)), (''newPrice'', JNum (newPrice u)),
           (''change'', JNum (change u)), (''changePercent'', JNum (changePercent u))]"

definition failure_500 :: "string \<Rightarrow> string \<Rightarrow> Response" where
  "failure_500 what msg =
     json_response 500
       (JObj [(''success'', JBool False), (''error'', JStr what), (''details'', JStr msg)])"

text \<open>
  \<^verbatim>\<open>const { productIds } = await req.json()\<close>: \<open>Inl\<close> is the message of the error raised
  (the body does not parse, or it parses to \<^verbatim>\<open>null\<close>, which cannot be destructured; the
  wording of the second message is the engine's).
\<close>

definition destructure :: "string + json \<Rightarrow> string \<Rightarrow> string + json option" where
  "destructure b k =
     (case b of
        Inl msg \<Rightarrow> Inl msg
      | Inr JNull \<Rightarrow>
          Inl (''Cannot destructure property '' @ k @ '' of null'')
      | Inr v \<Rightarrow> Inr (field v k))"

text \<open>
  The handler: the response, and the lines it writes to the console. The sending of the
  notifications is outside the \<^verbatim>\<open>try\<close> of the loop: an error it raises reaches the outer
  \<^verbatim>\<open>catch\<close>, which answers with status 500.
\<close>

definition update_prices_handler :: "(real \<Rightarrow> real) \<Rightarrow> rng \<Rightarrow> Request
    \<Rightarrow> Response \<times> log_line list" where
  "update_prices_handler rd rnd req =
     (if http_method req = ''OPTIONS'' then
        (\<lparr>status = 200, headers = cors_headers, payload = None\<rparr>, [])
      else if http_method req \<noteq> ''POST'' then
        (json_response 405 (JObj [(''error'', JStr ''Method not allowed'')]), [])
      else
        (case destructure (body req) ''productIds'' of
           Inl msg \<Rightarrow> (failure_500 ''Failed to update prices'' msg, [PriceUpdateError msg])
         | Inr productIds \<Rightarrow>
             (if \<not> truthy productIds \<or> \<not> isArray productIds then
                (json_response 400 (JObj [(''error'', JStr ''Product IDs array is required'')]), [])
              else
                (case productIds of
                   Some (JArr pids) \<Rightarrow>
                     (case product_loop rd rnd pids 0 [] [] of
                        (updates, notifications, n) \<Rightarrow>
                          (case (if length notifications > 0
                                 then sendPriceAlertNotifications notifications
                                 else (None, [])) of
                             (Some e, lines) \<Rightarrow>
                               (failure_500 ''Failed to update prices'' (message e),
                                lines @ [PriceUpdateError (message e)])
                           | (None, lines) \<Rightarrow>
                               (json_response 200
                                  (JObj [(''success'', JBool True),
                                         (''updatedProducts'', JNum (real (length pids))),
                                         (''priceUpdates'', JNum (real (length updates))),
                                         (''notifications'',
                                            JNum (real (length notifications))),
                                         (''updates'', JArr (map json_of_update updates))]),
                                lines)))
                 | _ \<Rightarrow>
                     (json_response 400
                        (JObj [(''error'', JStr ''Product IDs array is required'')]), [])))))"

section \<open>Strings\<close>

text \<open>
  \<^verbatim>\<open>String.prototype.toLowerCase\<close> on ASCII text (other characters are left as they
  are), and \<^verbatim>\<open>String.prototype.includes\<close>: the argument occurs as a contiguous piece.
\<close>

definition lower_char :: "char \<Rightarrow> char" where
  "lower_char c =
     (case map_of (zip ''ABCDEFGHIJKLMNOPQRSTUVWXYZ'' ''abcdefghijklmnopqrstuvwxyz'') c of
        Some d \<Rightarrow> d
      | None \<Rightarrow> c)"

definition toLowerCase :: "string \<Rightarrow> string" where
  "toLowerCase s = map lower_char s"

fun startsWith :: "string \<Rightarrow> string \<Rightarrow> bool" where
  "startsWith s [] = True"
| "startsWith [] (c # t) = False"
| "startsWith (x # s) (c # t) = (x = c \<and> startsWith s t)"

fun includes_str :: "string \<Rightarrow> string \<Rightarrow> bool" where
  "includes_str [] t = (t = [])"
| "includes_str (x # s) t = (startsWith (x # s) t \<or> includes_str s t)"

section \<open>The scrape-prices function\<close>

text \<open>
  \<^verbatim>\<open>PriceResult\<close>; the optional \<^verbatim>\<open>image\<close> is never set by the scrapers and is left out.
\<close>

record PriceResult =
  store :: string
  price_r :: real
  title :: string
  url :: string
  availability :: string
  shipping :: real

datatype scrape_log = ErrorScraping json js_error | ScrapingError string

text \<open>
  \<^verbatim>\<open>xs.slice(0, k)\<close> for an integer \<open>k\<close>: a negative end counts from the end of the array.
\<close>

definition slice0 :: "'a list \<Rightarrow> int \<Rightarrow> 'a list" where
  "slice0 xs k = (if k < 0 then take (nat (int (length xs) + k)) xs else take (nat k) xs)"

text \<open>
  The four scrapers differ in their constants only. Each builds a one-element array: the
  price draws one random number, then the URL calls \<^verbatim>\<open>encodeURIComponent\<close>, which raises
  \<^verbatim>\<open>URIError\<close> on a malformed string (\<open>enc\<close> returns \<open>None\<close> there). The random number
  is drawn before the URL is built, so the count advances on both paths.
\<close>

definition mock_scrape :: "string \<Rightarrow> real \<Rightarrow> real \<Rightarrow> string \<Rightarrow> string \<Rightarrow> real
    \<Rightarrow> (string \<Rightarrow> string option) \<Rightarrow> (real \<Rightarrow> real) \<Rightarrow> rng \<Rightarrow> string \<Rightarrow> int \<Rightarrow> nat
    \<Rightarrow> (js_error + PriceResult list) \<times> nat" where
  "mock_scrape name scale base suffix prefix ship enc rd rnd pn mx n =
     (case enc pn of
        None \<Rightarrow> (Inl (URIError ''URI malformed''), n + 1)
      | Some q \<Rightarrow>
          (Inr (slice0 [\<lparr>store = name, price_r = rd (rd (rnd n * scale) + base),
                          title = pn @ suffix, url = prefix @ q,
                          availability = ''in_stock'', shipping = ship\<rparr>] mx),
           n + 1))"

definition scrapeAmazon :: "(string \<Rightarrow> string option) \<Rightarrow> (real \<Rightarrow> real) \<Rightarrow> rng \<Rightarrow> string
    \<Rightarrow> int \<Rightarrow> nat \<Rightarrow> (js_error + PriceResult list) \<times> nat" where
  "scrapeAmazon =
     mock_scrape ''Amazon'' 500 100 '' - Amazon Choice'' ''https://amazon.com/search?k='' 0"

definition scrapeWalmart :: "(string \<Rightarrow> string option) \<Rightarrow> (real \<Rightarrow> real) \<Rightarrow> rng \<Rightarrow> string
    \<Rightarrow> int \<Rightarrow> nat \<Rightarrow> (js_error + PriceResult list) \<times> nat" where
  "scrapeWalmart =
     mock_scrape ''Walmart'' 450 90 '' - Great Value'' ''https://walmart.com/search?q=''
       d5_99"

definition scrapeTarget :: "(string \<Rightarrow> string option) \<Rightarrow> (real \<Rightarrow> real) \<Rightarrow> rng \<Rightarrow> string
    \<Rightarrow> int \<Rightarrow> nat \<Rightarrow> (js_error + PriceResult list) \<times> nat" where
  "scrapeTarget =
     mock_scrape ''Target'' 480 95 '' - Target Exclusive''
       ''https://target.com/s?searchTerm='' 0"

definition scrapeBestBuy :: "(string \<Rightarrow> string option) \<Rightarrow> (real \<Rightarrow> real) \<Rightarrow> rng \<Rightarrow> string
    \<Rightarrow> int \<Rightarrow> nat \<Rightarrow> (js_error + PriceResult list) \<times> nat" where
  "scrapeBestBuy =
     mock_scrape ''Best Buy'' 520 110 '' - Best Buy Exclusive''
       ''https://bestbuy.com/site/searchpage.jsp?st='' 0"

text \<open>
  \<^verbatim>\<open>scrapeStore\<close>. An entry of \<^verbatim>\<open>stores\<close> comes from the request body; when it is not a
  string, \<^verbatim>\<open>store.toLowerCase()\<close> raises \<^verbatim>\<open>TypeError\<close> before anything else runs.
\<close>

definition scrapeStore :: "(string \<Rightarrow> string option) \<Rightarrow> (real \<Rightarrow> real) \<Rightarrow> rng \<Rightarrow> json
    \<Rightarrow> string \<Rightarrow> int \<Rightarrow> nat \<Rightarrow> (js_error + PriceResult list) \<times> nat" where
  "scrapeStore enc rd rnd st pn mx n =
     (case st of
        JStr s \<Rightarrow>
          (let l = toLowerCase s in
           if l = ''amazon'' then scrapeAmazon enc rd rnd pn mx n
           else if l = ''walmart'' then scrapeWalmart enc rd rnd pn mx n
           else if l = ''target'' then scrapeTarget enc rd rnd pn mx n
           else if l = ''bestbuy'' then scrapeBestBuy enc rd rnd pn mx n
           else (Inr [], n))
      | _ \<Rightarrow> (Inl (TypeError ''store.toLowerCase is not a function''), n))"

text \<open>
  The loop over the stores, each call inside its own \<^verbatim>\<open>try\<close>/\<^verbatim>\<open>catch\<close>. The \<^verbatim>\<open>catch\<close>
  logs a line whose template converts the store entry to a string; when that conversion
  raises, the error leaves the loop (\<open>Inl\<close>, with the lines logged so far).
\<close>

fun scrape_loop :: "(string \<Rightarrow> string option) \<Rightarrow> (real \<Rightarrow> real) \<Rightarrow> rng \<Rightarrow> string \<Rightarrow> int
    \<Rightarrow> json list \<Rightarrow> nat \<Rightarrow> PriceResult list \<Rightarrow> scrape_log list
    \<Rightarrow> (js_error \<times> scrape_log list) + (PriceResult list \<times> scrape_log list \<times> nat)" where
  "scrape_loop enc rd rnd pn mx [] n results logs = Inr (results, logs, n)"
| "scrape_loop enc rd rnd pn mx (st # rest) n results logs =
     (case scrapeStore enc rd rnd st pn mx n of
        (Inl e, n') \<Rightarrow>
          (if to_string_throws st then Inl (not_primitive, logs)
           else scrape_loop enc rd rnd pn mx rest n' results (logs @ [ErrorScraping st e]))
      | (Inr storeResults, n') \<Rightarrow>
          scrape_loop enc rd rnd pn mx rest n' (results @ storeResults) logs)"

text \<open>
  The request body after parsing and destructuring, as \<^verbatim>\<open>ScrapeRequest\<close> declares it
  (\<open>None\<close> is an absent property, which takes the default); the entries of \<^verbatim>\<open>stores\<close> are
  kept as parsed values. \<open>Inl\<close> is a body that does not parse.
\<close>

record ScrapeRequest =
  productName :: "string option"
  stores :: "json list option"
  maxResults :: "int option"

definition json_of_result :: "PriceResult \<Rightarrow> json" where
  "json_of_result r =
     JObj [(''store'', JStr (store r)), (''price'', JNum (price_r r)),
           (''title'', JStr (title r)), (''url'', JStr (url r)),
           (''availability'', JStr (availability r)), (''shipping'', JNum (shipping r))]"

definition default_stores :: "json list" where
  "default_stores = [JStr ''amazon'', JStr ''walmart'', JStr ''target'', JStr ''bestbuy'']"

text \<open>The defaults of the destructuring: \<^verbatim>\<open>stores = [...]\<close> and \<^verbatim>\<open>maxResults = 5\<close>.\<close>

definition stores_of :: "ScrapeRequest \<Rightarrow> json list" where
  "stores_of req = (case stores req of None \<Rightarrow> default_stores | Some xs \<Rightarrow> xs)"

definition maxResults_of :: "ScrapeRequest \<Rightarrow> int" where
  "maxResults_of req = (case maxResults req of None \<Rightarrow> 5 | Some m \<Rightarrow> m)"

definition scrape_prices_handler :: "(string \<Rightarrow> string option) \<Rightarrow> (real \<Rightarrow> real) \<Rightarrow> rng
    \<Rightarrow> string \<Rightarrow> string + ScrapeRequest \<Rightarrow> Response \<times> scrape_log list" where
  "scrape_prices_handler enc rd rnd meth parsed =
     (if meth = ''OPTIONS'' then
        (\<lparr>status = 200, headers = cors_headers, payload = None\<rparr>, [])
      else if meth \<noteq> ''POST'' then
        (json_response 405 (JObj [(''error'', JStr ''Method not allowed'')]), [])
      else
        (case parsed of
           Inl msg \<Rightarrow> (failure_500 ''Failed to scrape prices'' msg, [ScrapingError msg])
         | Inr req \<Rightarrow>
             (let sts = stores_of req;
                  mx = maxResults_of req
              in case productName req of
                   None \<Rightarrow>
                     (json_response 400 (JObj [(''error'', JStr ''Product name is required'')]), [])
                 | Some pn \<Rightarrow>
                     (if pn = [] then
                        (json_response 400
                           (JObj [(''error'', JStr ''Product name is required'')]), [])
                      else
                        (case scrape_loop enc rd rnd pn mx sts 0 [] [] of
                           Inl (e, logs) \<Rightarrow>
                             (failure_500 ''Failed to scrape prices'' (message e),
                              logs @ [ScrapingError (message e)])
                         | Inr (results, logs, n) \<Rightarrow>
                             (json_response 200
                                (JObj [(''success'', JBool True),
                                       (''productName'', JStr pn),
                                       (''results'',
                                          JArr (map json_of_result
                                            (slice0 results (mx * int (length sts))))),
                                       (''totalResults'', JNum (real (length results)))]),
                              logs))))))"

text \<open>
  What the stores of a batch contribute when each store's failure is contained: the quotes
  of a store whose scrape returns, nothing for a store whose scrape raises. This is the
  reading of the containment requirement that the loop above is compared with.
\<close>

fun contained_quotes :: "(string \<Rightarrow> string option) \<Rightarrow> (real \<Rightarrow> real) \<Rightarrow> rng \<Rightarrow> string \<Rightarrow> int
    \<Rightarrow> json list \<Rightarrow> nat \<Rightarrow> PriceResult list" where
  "contained_quotes enc rd rnd pn mx [] n = []"
| "contained_quotes enc rd rnd pn mx (st # rest) n =
     (case scrapeStore enc rd rnd st pn mx n of
        (Inl e, n') \<Rightarrow> contained_quotes enc rd rnd pn mx rest n'
      | (Inr qs, n') \<Rightarrow> qs @ contained_quotes enc rd rnd pn mx rest n')"

section \<open>The search-intent analysis of ai-search\<close>

record PriceRange =
  min_p :: "real option"
  max_p :: "real option"

record SearchIntent =
  productType :: string
  brand :: "string option"
  priceRange :: "PriceRange option"
  features :: "string list"
  category :: "string option"

definition productTypes :: "string list" where
  "productTypes =
     [''phone'', ''iphone'', ''smartphone'', ''mobile'',
      ''laptop'', ''macbook'', ''computer'', ''pc'',
      ''headphones'', ''earbuds'', ''airpods'',
      ''tablet'', ''ipad'',
      ''watch'', ''smartwatch'',
      ''tv'', ''television'', ''monitor'',
      ''camera'', ''gaming'', ''console'']"

text \<open>The loop \<^verbatim>\<open>for (const x of xs) if (query.includes(x)) return x\<close>.\<close>

fun first_included :: "string \<Rightarrow> string list \<Rightarrow> string option" where
  "first_included query [] = None"
| "first_included query (x # xs) =
     (if includes_str query x then Some x else first_included query xs)"

definition extractProductType :: "string \<Rightarrow> string" where
  "extractProductType query =
     (case first_included query productTypes of Some t \<Rightarrow> t | None \<Rightarrow> ''general'')"

definition brands :: "string list" where
  "brands = [''apple'', ''samsung'', ''google'', ''microsoft'', ''sony'', ''lg'', ''dell'',
             ''hp'', ''lenovo'', ''asus'']"

definition extractBrand :: "string \<Rightarrow> string option" where
  "extractBrand query = first_included query brands"

text \<open>
  The five regular expressions of \<^verbatim>\<open>extractPriceRange\<close>, in the order tried:
  \<^verbatim>\<open>under $?(d+)\<close>, \<^verbatim>\<open>below $?(d+)\<close>, \<^verbatim>\<open>less than $?(d+)\<close>, \<^verbatim>\<open>$?(d+) - $?(d+)\<close> and
  \<^verbatim>\<open>between $?(d+) and $?(d+)\<close> (digits and optional dollar signs). The regular-expression
  engine and \<^verbatim>\<open>parseInt\<close> are built into the language: \<open>rmatch p query\<close> is the result of
  \<^verbatim>\<open>query.match(p)\<close>, namely the first capture group and the second one when the
  pattern has it.
\<close>

datatype price_pattern = Under | Below | LessThan | Dash | Between

definition pricePatterns :: "price_pattern list" where
  "pricePatterns = [Under, Below, LessThan, Dash, Between]"

fun price_loop :: "(price_pattern \<Rightarrow> string \<Rightarrow> (string \<times> string option) option)
    \<Rightarrow> (string \<Rightarrow> real) \<Rightarrow> string \<Rightarrow> price_pattern list \<Rightarrow> PriceRange option" where
  "price_loop rmatch parseInt query [] = None"
| "price_loop rmatch parseInt query (p # ps) =
     (case rmatch p query of
        None \<Rightarrow> price_loop rmatch parseInt query ps
      | Some (g1, g2) \<Rightarrow>
          (case g2 of
             None \<Rightarrow> Some \<lparr>min_p = None, max_p = Some (parseInt g1)\<rparr>
           | Some g \<Rightarrow>
               (if g \<noteq> [] then Some \<lparr>min_p = Some (parseInt g1), max_p = Some (parseInt g)\<rparr>
                else Some \<lparr>min_p = None, max_p = Some (parseInt g1)\<rparr>)))"

definition extractPriceRange :: "(price_pattern \<Rightarrow> string \<Rightarrow> (string \<times> string option) option)
    \<Rightarrow> (string \<Rightarrow> real) \<Rightarrow> string \<Rightarrow> PriceRange option" where
  "extractPriceRange rmatch parseInt query = price_loop rmatch parseInt query pricePatterns"

definition featureKeywords :: "string list" where
  "featureKeywords =
     [''wireless'', ''bluetooth'', ''noise cancelling'', ''waterproof'',
      ''fast charging'', ''long battery'', ''high resolution'', ''4k'',
      ''gaming'', ''professional'', ''portable'', ''lightweight'']"

definition extractFeatures :: "string \<Rightarrow> string list" where
  "extractFeatures query = filter (includes_str query) featureKeywords"

definition categories :: "(string \<times> string list) list" where
  "categories =
     [(''electronics'', [''phone'', ''laptop'', ''computer'', ''tablet'', ''tv'', ''camera'']),
      (''gaming'', [''gaming'', ''console'', ''xbox'', ''playstation'', ''nintendo'']),
      (''audio'', [''headphones'', ''earbuds'', ''speaker'', ''sound'']),
      (''wearables'', [''watch'', ''fitness'', ''tracker''])]"

fun category_loop :: "string \<Rightarrow> (string \<times> string list) list \<Rightarrow> string option" where
  "category_loop query [] = None"
| "category_loop query ((c, keywords) # rest) =
     (case first_included query keywords of
        Some k \<Rightarrow> Some c
      | None \<Rightarrow> category_loop query rest)"

definition extractCategory :: "string \<Rightarrow> string option" where
  "extractCategory query = category_loop query categories"

definition analyzeSearchIntent :: "(price_pattern \<Rightarrow> string \<Rightarrow> (string \<times> string option) option)
    \<Rightarrow> (string \<Rightarrow> real) \<Rightarrow> string \<Rightarrow> SearchIntent" where
  "analyzeSearchIntent rmatch parseInt query =
     (let lowerQuery = toLowerCase query in
      \<lparr>productType = extractProductType lowerQuery,
       brand = extractBrand lowerQuery,
       priceRange = extractPriceRange rmatch parseInt lowerQuery,
       features = extractFeatures lowerQuery,
       category = extractCategory lowerQuery\<rparr>)"

section \<open>The pages: lowest price and price alerts\<close>

text \<open>
  \<^verbatim>\<open>PriceData\<close> as the home page declares it (the other pages add fields that the helper
  does not read).
\<close>

record PriceData =
  product_id :: string
  store_id :: string
  price :: real
  store_name :: string
  store_logo_url :: string

text \<open>
  \<^verbatim>\<open>getLowestPrice\<close>, the same text on the home, search and favourites pages, and on the
  details page over \<^verbatim>\<open>currentPrices\<close>: \<^verbatim>\<open>null\<close> for no rows, else \<^verbatim>\<open>Math.min\<close> of the
  prices, which folds the minimum over its arguments.
\<close>

definition getLowestPrice :: "PriceData list \<Rightarrow> real option" where
  "getLowestPrice prices =
     (case map price prices of
        [] \<Rightarrow> None
      | x # xs \<Rightarrow> Some (fold min xs x))"

text \<open>
  What the cards render for \<^verbatim>\<open>{lowestPrice && (... Best: $ ...)}\<close>: nothing for \<^verbatim>\<open>null\<close>,
  the bare number for a lowest price of 0 (a falsy number is rendered as it is), else the
  badge formatted from the lowest price. The details page renders
  \<^verbatim>\<open>lowestPrice ? $... : 'N/A'\<close>.
\<close>

datatype rendered = Nothing | BareZero | Best real | NotAvailable

definition best_badge :: "PriceData list \<Rightarrow> rendered" where
  "best_badge prices =
     (case getLowestPrice prices of
        None \<Rightarrow> Nothing
      | Some p \<Rightarrow> if p = 0 then BareZero else Best p)"

definition lowest_price_text :: "PriceData list \<Rightarrow> rendered" where
  "lowest_price_text currentPrices =
     (case getLowestPrice currentPrices of
        None \<Rightarrow> NotAvailable
      | Some p \<Rightarrow> if p = 0 then NotAvailable else Best p)"

text \<open>
  \<^verbatim>\<open>createPriceAlert\<close> of the details page. The page state it reads and writes, the
  \<^verbatim>\<open>price_alerts\<close> table behind \<^verbatim>\<open>blink.db\<close> (rows as declared above), and what the
  surroundings answer:
  the signed-in user (\<open>None\<close> when \<^verbatim>\<open>blink.auth.me()\<close> rejects), \<^verbatim>\<open>parseFloat\<close>
  (\<open>None\<close> is \<^verbatim>\<open>NaN\<close>), whether the insert succeeds, and the identifier generated.
\<close>

datatype toast = InvalidPrice | PriceAlertCreated real | ErrorCreatingAlert

record details_page =
  product :: "string option"
  alertPrice :: string
  toasts :: "toast list"
  price_alerts :: "alert_row list"

record surroundings =
  me :: "string option"
  parseFloat :: "string \<Rightarrow> real option"
  create_succeeds :: bool
  fresh_id :: string

definition createPriceAlert :: "surroundings \<Rightarrow> details_page \<Rightarrow> details_page" where
  "createPriceAlert env pg =
     (case product pg of
        None \<Rightarrow> pg
      | Some pid \<Rightarrow>
          (if alertPrice pg = [] then pg
           else
             (case me env of
                None \<Rightarrow> pg\<lparr>toasts := toasts pg @ [ErrorCreatingAlert]\<rparr>
              | Some uid \<Rightarrow>
                  (case parseFloat env (alertPrice pg) of
                     None \<Rightarrow> pg\<lparr>toasts := toasts pg @ [InvalidPrice]\<rparr>
                   | Some targetPrice \<Rightarrow>
                       (if targetPrice \<le> 0 then pg\<lparr>toasts := toasts pg @ [InvalidPrice]\<rparr>
                        else if \<not> create_succeeds env then
                          pg\<lparr>toasts := toasts pg @ [ErrorCreatingAlert]\<rparr>
                        else
                          pg\<lparr>price_alerts := price_alerts pg @
                                 [\<lparr>alert_id = fresh_id env, user_id = uid,
                                   alert_product_id = pid, target_price = targetPrice,
                                   is_active = ''1''\<rparr>],
                             toasts := toasts pg @ [PriceAlertCreated targetPrice],
                             alertPrice := []\<rparr>)))))"

section \<open>Reading a response, and the inputs of the examples\<close>

definition payload_field :: "Response \<Rightarrow> string \<Rightarrow> json option" where
  "payload_field r k = (case payload r of None \<Rightarrow> None | Some b \<Rightarrow> field b k)"

text \<open>
  Two quotes of one product, 120 at the first store (up from 110) and 95 at the second
  (down from 100): the minimum, 95, is below a target price of 100.
\<close>

definition two_quotes :: "PriceUpdate list" where
  "two_quotes =
     [\<lparr>productId = JStr ''p1'', storeId = ''amazon'', oldPrice = 110, newPrice = 120,
       change = 10, changePercent = 100 / 11\<rparr>,
      \<lparr>productId = JStr ''p1'', storeId = ''walmart'', oldPrice = 100, newPrice = 95,
       change = - 5, changePercent = - 5\<rparr>]"

text \<open>One quote that dropped from 200 to 180.\<close>

definition one_drop :: "PriceUpdate list" where
  "one_drop =
     [\<lparr>productId = JStr ''p1'', storeId = ''amazon'', oldPrice = 200, newPrice = 180,
       change = - 20, changePercent = - 10\<rparr>]"

text \<open>
  Alert tables for the product of that quote: one active alert with target price 190 (the
  new price 180 is within it), and one alert with target price -5.
\<close>

definition alert_190 :: alert_row where
  "alert_190 =
     \<lparr>alert_id = ''alert_1'', user_id = ''u1'', alert_product_id = ''p1'',
      target_price = 190, is_active = ''1''\<rparr>"


definition one_alert_state :: pipeline_state where
  "one_alert_state = \<lparr>alerts_table = [alert_190], console = []\<rparr>"


text \<open>
  Random draws: every draw 0.0625 (each store changes); the first draw 0.0625 and every
  later one 0.5 (only the first store changes: old price 0.5 * 500 + 100 = 350, relative
  change (0.5 - 0.5) * 0.2 = 0, new price 350 * (1 + 0) = 350, all of them doubles).
\<close>

definition every_store_drops :: rng where
  "every_store_drops = (\<lambda>k. 1 / 16)"

definition first_store_unchanged :: rng where
  "first_store_unchanged = (\<lambda>k. if k = 0 then 1 / 16 else 1 / 2)"

text \<open>
  A request for three products; with the draws below the first and the third product get
  an update at each of the four stores (twelve draws each: 0.0625, then 0.5 and 0.5, which
  give the old price 350 and the new price 350) and the second gets none (four draws of 0.5).
\<close>

definition post_ids :: "json list \<Rightarrow> Request" where
  "post_ids pids = \<lparr>http_method = ''POST'', body = Inr (JObj [(''productIds'', JArr pids)])\<rparr>"

definition middle_product_empty :: rng where
  "middle_product_empty =
     (\<lambda>k. if k < 12 then (if k mod 3 = 0 then 1 / 16 else 1 / 2)
          else if k < 16 then 1 / 2
          else (if k mod 3 = 1 then 1 / 16 else 1 / 2))"

text \<open>
  A scrape request, as parsed from the body
  \<^verbatim>\<open>{"productName": "tv", "stores": ["amazon", {"toString": 1}, "target"]}\<close>: its second
  store entry is an object with an own \<^verbatim>\<open>toString\<close>. Every draw is 0.5, so that a price is
  0.5 * 500 + 100 = 350 at Amazon.
\<close>

definition object_store_request :: ScrapeRequest where
  "object_store_request =
     \<lparr>productName = Some ''tv'',
      stores = Some [JStr ''amazon'', JObj [(''toString'', JNum 1)], JStr ''target''],
      maxResults = None\<rparr>"

definition halves :: rng where
  "halves = (\<lambda>k. 1 / 2)"



text \<open>Three price rows of one product, at 30, 20 and 25.\<close>

definition three_rows :: "PriceData list" where
  "three_rows =
     [\<lparr>product_id = ''p1'', store_id = ''s1'', price = 30, store_name = ''Amazon'',
       store_logo_url = []\<rparr>,
      \<lparr>product_id = ''p1'', store_id = ''s2'', price = 20, store_name = ''Walmart'',
       store_logo_url = []\<rparr>,
      \<lparr>product_id = ''p1'', store_id = ''s3'', price = 25, store_name = ''Target'',
       store_logo_url = []\<rparr>]"

section \<open>The alert check of update-prices\<close>

lemma alert_loop_acc:
  "alert_loop us acc = acc @ map notification_of (filter (\<lambda>u. change u < - 10) us)"
  by (induction us arbitrary: acc) simp_all

text \<open>
  C1, as stated, fails on the code: with a target price of 100 and the quotes 120 and 95
  the minimum is at most the target, so exactly one notification is due, and
  \<^verbatim>\<open>checkPriceAlerts\<close> returns none (neither change is below -10).
\<close>

theorem checkPriceAlerts_min_target_counterexample:
  "\<not> ((length (checkPriceAlerts (JStr ''p1'') two_quotes) = 1)
        = (Min (set (map newPrice two_quotes)) \<le> 100))"
  by (simp add: checkPriceAlerts_def two_quotes_def)

text \<open>
  C1 (as the code has it): \<^verbatim>\<open>checkPriceAlerts\<close> takes no alert and no target price. It emits,
  in input order, one notification for each update whose change is below -10 (a drop of
  more than 10), each referencing the store of its own update.
\<close>

theorem checkPriceAlerts_per_drop:
  "checkPriceAlerts pid updates =
     map notification_of (filter (\<lambda>u. change u < - 10) updates)"
  by (simp add: checkPriceAlerts_def alert_loop_acc)

lemma alert_pass_notifications:
  "fst (alert_pass s pid updates) = checkPriceAlerts pid updates"
  by (simp add: alert_pass_def Let_def split: prod.splits)

lemma alert_pass_table:
  "alerts_table (fst (snd (alert_pass s pid updates))) = alerts_table s"
  by (simp add: alert_pass_def Let_def split: prod.splits)

lemma send_lines_none:
  "(fst (send_lines ns lines) = None)
     = (\<not> list_ex (\<lambda>x. to_string_throws (productId_n x)) ns)"
  by (induction ns arbitrary: lines) simp_all

lemma send_none:
  "(fst (sendPriceAlertNotifications ns) = None)
     = (\<not> list_ex (\<lambda>x. to_string_throws (productId_n x)) ns)"
  by (simp add: sendPriceAlertNotifications_def send_lines_none)

lemma checkPriceAlerts_ids:
  "x \<in> set (checkPriceAlerts pid updates) \<Longrightarrow> \<exists>u \<in> set updates. productId_n x = productId u"
  by (auto simp: checkPriceAlerts_def alert_loop_acc notification_of_def)


text \<open>
  C2, as stated, fails on the code: with an active alert of target price 190 on the product,
  a first pass over a quote of 180 (down from 200) yields one notification, the alert is
  still active afterwards, and a second pass, run in the state that the first one left,
  yields one notification again.
\<close>

theorem refire_counterexample:
  "length (fst (alert_pass one_alert_state (JStr ''p1'') one_drop)) = 1 \<and>
   map is_active (alerts_table (fst (snd (alert_pass one_alert_state (JStr ''p1'') one_drop))))
     = [''1''] \<and>
   length (fst (alert_pass (fst (snd (alert_pass one_alert_state (JStr ''p1'') one_drop)))
      (JStr ''p1'') one_drop)) = 1"
  by (simp add: alert_pass_notifications alert_pass_table checkPriceAlerts_def one_drop_def
      one_alert_state_def alert_190_def)

text \<open>
  C2 (as the code has it): nothing is deactivated. An alert step leaves every row of the
  alert table as it is, and a step run in the state left by an earlier step over the same
  updates again emits, in input order, one notification for each update whose change is
  below -10: an update that qualifies is notified every time it is presented.
\<close>

theorem checkPriceAlerts_no_deactivation:
  "alerts_table (fst (snd (alert_pass s pid updates))) = alerts_table s \<and>
   fst (alert_pass (fst (snd (alert_pass s pid updates))) pid updates)
     = map notification_of (filter (\<lambda>u. change u < - 10) updates)"
  by (simp add: alert_pass_notifications alert_pass_table checkPriceAlerts_def alert_loop_acc)

section \<open>The simulated price updates\<close>

lemma store_loop_elems:
  "u \<in> set (fst (store_loop rd pid rnd sts n acc)) \<Longrightarrow>
     u \<in> set acc \<or>
     (\<exists>sid k. sid \<in> set sts \<and> u = simulated_update rd pid sid (rnd (k + 1)) (rnd (k + 2)))"
proof (induction sts arbitrary: n acc)
  case Nil
  then show ?case by simp
next
  case (Cons sid rest)
  show ?case
  proof (cases "rnd n < d0_1")
    case True
    with Cons.prems have
      "u \<in> set (fst (store_loop rd pid rnd rest (n + 3)
          (acc @ [simulated_update rd pid sid (rnd (n + 1)) (rnd (n + 2))])))"
      by simp
    from Cons.IH [OF this] show ?thesis by auto
  next
    case False
    with Cons.prems have "u \<in> set (fst (store_loop rd pid rnd rest (n + 1) acc))" by simp
    from Cons.IH [OF this] show ?thesis by auto
  qed
qed

lemma updateProductPrices_elems:
  assumes "u \<in> set (fst (updateProductPrices rd pid rnd n))"
  obtains sid k where "sid \<in> set stores_sim"
    "u = simulated_update rd pid sid (rnd (k + 1)) (rnd (k + 2))"
  using store_loop_elems [of u rd pid rnd stores_sim n "[]"] assms
  unfolding updateProductPrices_def by auto

lemma simulated_old_bounds:
  assumes "rounding rd" "0 \<le> r2" "r2 < 1"
  shows "100 \<le> oldPrice (simulated_update rd pid sid r2 r3)"
    and "oldPrice (simulated_update rd pid sid r2 r3) \<le> 600"
proof -
  from assms(1) have mono: "\<And>x y. x \<le> y \<Longrightarrow> rd x \<le> rd y"
    and fx: "rd 0 = 0" "rd 100 = 100" "rd 500 = 500" "rd 600 = 600"
    by (simp_all add: rounding_def)
  have "0 \<le> r2 * 500" "r2 * 500 \<le> 500" using assms(2,3) by simp_all
  then have "rd 0 \<le> rd (r2 * 500)" "rd (r2 * 500) \<le> rd 500" by (auto intro: mono)
  then have "100 \<le> rd (r2 * 500) + 100" "rd (r2 * 500) + 100 \<le> 600" by (simp_all add: fx)
  then have "rd 100 \<le> rd (rd (r2 * 500) + 100)" "rd (rd (r2 * 500) + 100) \<le> rd 600"
    by (auto intro: mono)
  then show "100 \<le> oldPrice (simulated_update rd pid sid r2 r3)"
    and "oldPrice (simulated_update rd pid sid r2 r3) \<le> 600"
    by (simp_all add: simulated_update_def Let_def fx)
qed

lemma exact_rounding: "rounding exact"
  by (simp add: rounding_def exact_def)

lemma every_store_drops_range: "unit_range every_store_drops"
  by (simp add: unit_range_def every_store_drops_def)

lemma every_store_drops_updates:
  "map storeId (fst (updateProductPrices exact (JStr ''p1'') every_store_drops 0))
     = [''amazon'', ''walmart'', ''target'', ''bestbuy'']"
  by (simp add: updateProductPrices_def stores_sim_def every_store_drops_def d0_1_def
      simulated_update_def Let_def)

lemma every_store_drops_hd:
  "hd (fst (updateProductPrices exact (JStr ''p1'') every_store_drops 0))
     \<in> set (fst (updateProductPrices exact (JStr ''p1'') every_store_drops 0))"
proof -
  have "fst (updateProductPrices exact (JStr ''p1'') every_store_drops 0) \<noteq> []"
    using every_store_drops_updates by auto
  then show ?thesis by (rule hd_in_set)
qed

text \<open>
  C4, as stated, fails on the code: no snapshot is kept, so every refresh is one without a
  prior snapshot, and the update it emits carries the number 350 as \<^verbatim>\<open>oldPrice\<close> (not
  \<^verbatim>\<open>null\<close>) and has no \<^verbatim>\<open>classification\<close>.
\<close>

theorem oldPrice_not_null_counterexample:
  "map json_of_update (fst (updateProductPrices exact (JStr ''p1'') first_store_unchanged 0))
   = [JObj [(''productId'', JStr ''p1''), (''storeId'', JStr ''amazon''),
            (''oldPrice'', JNum 350), (''newPrice'', JNum 350),
            (''change'', JNum 0), (''changePercent'', JNum 0)]]"
  by (simp add: updateProductPrices_def stores_sim_def json_of_update_def
      first_store_unchanged_def simulated_update_def relative_change_def exact_def d0_1_def
      Let_def)

text \<open>
  C4 (as the code has it): \<^verbatim>\<open>updateProductPrices\<close> reads no prior snapshot. Every update it
  emits carries a number as \<^verbatim>\<open>oldPrice\<close>, computed by the simulation from its own draw and
  lying between 100 and 600 (both included, whatever the rounding of the doubles does),
  and has no \<^verbatim>\<open>classification\<close> field.
\<close>

theorem updateProductPrices_oldPrice_simulated:
  assumes "unit_range rnd" "rounding rd"
  shows "\<forall>u \<in> set (fst (updateProductPrices rd pid rnd n)).
           100 \<le> oldPrice u \<and> oldPrice u \<le> 600 \<and>
           field (json_of_update u) ''oldPrice'' = Some (JNum (oldPrice u)) \<and>
           field (json_of_update u) ''classification'' = None"
proof
  fix u assume "u \<in> set (fst (updateProductPrices rd pid rnd n))"
  then obtain sid k where u: "u = simulated_update rd pid sid (rnd (k + 1)) (rnd (k + 2))"
    by (rule updateProductPrices_elems)
  from assms(1) have "0 \<le> rnd (k + 1)" "rnd (k + 1) < 1" by (simp_all add: unit_range_def)
  from simulated_old_bounds [OF assms(2) this] u
  have "100 \<le> oldPrice u" "oldPrice u \<le> 600" by simp_all
  then show "100 \<le> oldPrice u \<and> oldPrice u \<le> 600 \<and>
           field (json_of_update u) ''oldPrice'' = Some (JNum (oldPrice u)) \<and>
           field (json_of_update u) ''classification'' = None"
    by (simp add: json_of_update_def)
qed

theorem updateProductPrices_oldPrice_simulated_witness:
  "unit_range every_store_drops \<and> rounding exact \<and>
   hd (fst (updateProductPrices exact (JStr ''p1'') every_store_drops 0))
     \<in> set (fst (updateProductPrices exact (JStr ''p1'') every_store_drops 0)) \<and>
   (100 \<le> oldPrice (hd (fst (updateProductPrices exact (JStr ''p1'') every_store_drops 0))) \<and>
    oldPrice (hd (fst (updateProductPrices exact (JStr ''p1'') every_store_drops 0))) \<le> 600 \<and>
    field (json_of_update
        (hd (fst (updateProductPrices exact (JStr ''p1'') every_store_drops 0)))) ''oldPrice''
      = Some (JNum (oldPrice
          (hd (fst (updateProductPrices exact (JStr ''p1'') every_store_drops 0))))) \<and>
    field (json_of_update
        (hd (fst (updateProductPrices exact (JStr ''p1'') every_store_drops 0))))
      ''classification'' = None)"
  using updateProductPrices_oldPrice_simulated
      [OF every_store_drops_range exact_rounding, rule_format, OF every_store_drops_hd]
    every_store_drops_range exact_rounding every_store_drops_hd
  by blast

text \<open>
  C5, as stated, fails on the code: an update whose change is exactly 0 is emitted without
  any classification, so it is not classified \<^verbatim>\<open>unchanged\<close>.
\<close>

theorem unchanged_not_classified_counterexample:
  "fst (updateProductPrices exact (JStr ''p1'') first_store_unchanged 0)
     = [\<lparr>productId = JStr ''p1'', storeId = ''amazon'', oldPrice = 350, newPrice = 350,
         change = 0, changePercent = 0\<rparr>] \<and>
   field (json_of_update
       \<lparr>productId = JStr ''p1'', storeId = ''amazon'', oldPrice = 350, newPrice = 350,
        change = 0, changePercent = 0\<rparr>) ''classification'' = None"
  by (simp add: updateProductPrices_def stores_sim_def json_of_update_def
      first_store_unchanged_def simulated_update_def relative_change_def exact_def d0_1_def
      Let_def)

text \<open>
  C5 (as the code has it): for every update emitted, \<^verbatim>\<open>change\<close> is the difference
  \<^verbatim>\<open>newPrice - oldPrice\<close> as the doubles give it. \<^verbatim>\<open>changePercent\<close> is not computed from
  \<^verbatim>\<open>change\<close> and \<^verbatim>\<open>oldPrice\<close>: it is the relative change drawn by the simulation, times 100,
  the same relative change \<open>c\<close> from which \<^verbatim>\<open>newPrice = oldPrice * (1 + c)\<close> was computed. No
  division is performed and there is no guard for a zero price (the simulated old price is
  at least 100); no classification is computed.
\<close>

theorem updateProductPrices_change_percent:
  assumes "unit_range rnd" "rounding rd"
  shows "\<forall>u \<in> set (fst (updateProductPrices rd pid rnd n)).
           (\<exists>k. change u = rd (newPrice u - oldPrice u) \<and>
                newPrice u = rd (oldPrice u * rd (1 + relative_change rd (rnd k))) \<and>
                changePercent u = rd (relative_change rd (rnd k) * 100)) \<and>
           100 \<le> oldPrice u \<and>
           field (json_of_update u) ''classification'' = None"
proof
  fix u assume "u \<in> set (fst (updateProductPrices rd pid rnd n))"
  then obtain sid k where u: "u = simulated_update rd pid sid (rnd (k + 1)) (rnd (k + 2))"
    by (rule updateProductPrices_elems)
  from assms(1) have "0 \<le> rnd (k + 1)" "rnd (k + 1) < 1" by (simp_all add: unit_range_def)
  from simulated_old_bounds(1) [OF assms(2) this] u have lo: "100 \<le> oldPrice u" by simp
  have "change u = rd (newPrice u - oldPrice u) \<and>
        newPrice u = rd (oldPrice u * rd (1 + relative_change rd (rnd (k + 2)))) \<and>
        changePercent u = rd (relative_change rd (rnd (k + 2)) * 100)"
    unfolding u by (simp add: simulated_update_def Let_def)
  then have "\<exists>k. change u = rd (newPrice u - oldPrice u) \<and>
                newPrice u = rd (oldPrice u * rd (1 + relative_change rd (rnd k))) \<and>
                changePercent u = rd (relative_change rd (rnd k) * 100)"
    by blast
  with lo show "(\<exists>k. change u = rd (newPrice u - oldPrice u) \<and>
                newPrice u = rd (oldPrice u * rd (1 + relative_change rd (rnd k))) \<and>
                changePercent u = rd (relative_change rd (rnd k) * 100)) \<and>
           100 \<le> oldPrice u \<and>
           field (json_of_update u) ''classification'' = None"
    by (simp add: json_of_update_def)
qed

theorem updateProductPrices_change_percent_witness:
  "unit_range every_store_drops \<and> rounding exact \<and>
   hd (fst (updateProductPrices exact (JStr ''p1'') every_store_drops 0))
     \<in> set (fst (updateProductPrices exact (JStr ''p1'') every_store_drops 0)) \<and>
   ((\<exists>k. change (hd (fst (updateProductPrices exact (JStr ''p1'') every_store_drops 0)))
          = exact (newPrice (hd (fst (updateProductPrices exact (JStr ''p1'') every_store_drops 0)))
              - oldPrice (hd (fst (updateProductPrices exact (JStr ''p1'') every_store_drops 0)))) \<and>
        newPrice (hd (fst (updateProductPrices exact (JStr ''p1'') every_store_drops 0)))
          = exact (oldPrice (hd (fst (updateProductPrices exact (JStr ''p1'') every_store_drops 0)))
              * exact (1 + relative_change exact (every_store_drops k))) \<and>
        changePercent (hd (fst (updateProductPrices exact (JStr ''p1'') every_store_drops 0)))
          = exact (relative_change exact (every_store_drops k) * 100)) \<and>
    100 \<le> oldPrice (hd (fst (updateProductPrices exact (JStr ''p1'') every_store_drops 0))) \<and>
    field (json_of_update
        (hd (fst (updateProductPrices exact (JStr ''p1'') every_store_drops 0))))
      ''classification'' = None)"
  using updateProductPrices_change_percent
      [OF every_store_drops_range exact_rounding, rule_format, OF every_store_drops_hd]
    every_store_drops_range exact_rounding every_store_drops_hd
  by blast

section \<open>The summary of update-prices and its validation of the request\<close>

lemma store_loop_ids:
  "u \<in> set (fst (store_loop rd pid rnd sts n acc)) \<Longrightarrow> u \<in> set acc \<or> productId u = pid"
  using store_loop_elems [of u rd pid rnd sts n acc]
  by (auto simp: simulated_update_def Let_def)

lemma product_loop_ids:
  "x \<in> set (fst (snd (product_loop rd rnd pids n us ns))) \<Longrightarrow>
     x \<in> set ns \<or> productId_n x \<in> set pids"
proof (induction pids arbitrary: n us ns)
  case Nil
  then show ?case by simp
next
  case (Cons pid pids)
  obtain pu n' where p: "updateProductPrices rd pid rnd n = (pu, n')"
    by (cases "updateProductPrices rd pid rnd n")
  with Cons.prems have
    "x \<in> set (fst (snd (product_loop rd rnd pids n' (us @ pu) (ns @ checkPriceAlerts pid pu))))"
    by simp
  from Cons.IH [OF this] consider "x \<in> set ns" | "x \<in> set (checkPriceAlerts pid pu)"
    | "productId_n x \<in> set pids" by auto
  then show ?case
  proof cases
    case 2
    from checkPriceAlerts_ids [OF this] obtain u
      where u: "u \<in> set pu" "productId_n x = productId u" by blast
    from u(1) p have "u \<in> set (fst (store_loop rd pid rnd stores_sim n []))"
      by (simp add: updateProductPrices_def)
    from store_loop_ids [OF this] u(2) show ?thesis by simp
  qed simp_all
qed

text \<open>Product ids that convert to strings never make the sending raise.\<close>

lemma send_strings_ok:
  assumes "\<forall>p \<in> set pids. \<not> to_string_throws p"
  shows "fst (sendPriceAlertNotifications (fst (snd (product_loop rd rnd pids 0 [] [])))) = None"
proof -
  have "\<not> to_string_throws (productId_n x)"
    if "x \<in> set (fst (snd (product_loop rd rnd pids 0 [] [])))" for x
    using product_loop_ids [OF that] assms by auto
  then show ?thesis by (auto simp: send_none list_ex_iff)
qed

lemma handler_array:
  assumes "http_method req = ''POST''" "body req = Inr b"
    "field b ''productIds'' = Some (JArr pids)"
    "fst (sendPriceAlertNotifications (fst (snd (product_loop rd rnd pids 0 [] [])))) = None"
  shows "fst (update_prices_handler rd rnd req) =
     json_response 200
       (JObj [(''success'', JBool True),
              (''updatedProducts'', JNum (real (length pids))),
              (''priceUpdates'', JNum (real (length (fst (product_loop rd rnd pids 0 [] []))))),
              (''notifications'',
                 JNum (real (length (fst (snd (product_loop rd rnd pids 0 [] [])))))),
              (''updates'',
                 JArr (map json_of_update (fst (product_loop rd rnd pids 0 [] []))))])"
proof -
  from assms(3) have "b \<noteq> JNull" by auto
  then have d: "destructure (Inr b) ''productIds'' = Inr (Some (JArr pids))"
    using assms(3) by (cases b) (simp_all add: destructure_def)
  obtain us ns n where l: "product_loop rd rnd pids 0 [] [] = (us, ns, n)"
    by (cases "product_loop rd rnd pids 0 [] []") auto
  with assms(4) obtain lines where s: "sendPriceAlertNotifications ns = (None, lines)"
    by (cases "sendPriceAlertNotifications ns") auto
  show ?thesis
    using assms(1,2) d l s
    by (simp add: update_prices_handler_def)
qed

text \<open>
  When the sending raises, the outer \<^verbatim>\<open>catch\<close> answers with status 500 and no summary.
\<close>

lemma handler_send_raises:
  assumes "http_method req = ''POST''" "body req = Inr b"
    "field b ''productIds'' = Some (JArr pids)"
    "fst (sendPriceAlertNotifications (fst (snd (product_loop rd rnd pids 0 [] [])))) = Some e"
  shows "fst (update_prices_handler rd rnd req)
     = failure_500 ''Failed to update prices'' (message e)"
proof -
  from assms(3) have "b \<noteq> JNull" by auto
  then have d: "destructure (Inr b) ''productIds'' = Inr (Some (JArr pids))"
    using assms(3) by (cases b) (simp_all add: destructure_def)
  obtain us ns n where l: "product_loop rd rnd pids 0 [] [] = (us, ns, n)"
    by (cases "product_loop rd rnd pids 0 [] []") auto
  with assms(4) obtain lines where s: "sendPriceAlertNotifications ns = (Some e, lines)"
    by (cases "sendPriceAlertNotifications ns") auto
  then have "ns \<noteq> []" by (auto simp: sendPriceAlertNotifications_def)
  then show ?thesis
    using assms(1,2) d l s
    by (simp add: update_prices_handler_def)
qed

lemma three_products_send:
  "fst (sendPriceAlertNotifications (fst (snd
      (product_loop rd rnd [JStr ''p1'', JStr ''p2'', JStr ''p3''] 0 [] [])))) = None"
  by (rule send_strings_ok) simp

lemma three_products_reply:
  "fst (update_prices_handler rd rnd (post_ids [JStr ''p1'', JStr ''p2'', JStr ''p3''])) =
     json_response 200
       (JObj [(''success'', JBool True),
              (''updatedProducts'', JNum (real (length [JStr ''p1'', JStr ''p2'', JStr ''p3'']))),
              (''priceUpdates'', JNum (real (length (fst
                 (product_loop rd rnd [JStr ''p1'', JStr ''p2'', JStr ''p3''] 0 [] []))))),
              (''notifications'', JNum (real (length (fst (snd
                 (product_loop rd rnd [JStr ''p1'', JStr ''p2'', JStr ''p3''] 0 [] [])))))),
              (''updates'', JArr (map json_of_update (fst
                 (product_loop rd rnd [JStr ''p1'', JStr ''p2'', JStr ''p3''] 0 [] []))))])"
  by (rule handler_array
        [where b = "JObj [(''productIds'', JArr [JStr ''p1'', JStr ''p2'', JStr ''p3''])]",
         OF _ _ _ three_products_send])
     (simp_all add: post_ids_def)

text \<open>
  C3, as stated, fails on the code: in a batch of three products of which the second gets
  no quote at all, the summary has no \<^verbatim>\<open>productsSucceeded\<close> and no \<^verbatim>\<open>productsFailed\<close>; its
  only product count, \<^verbatim>\<open>updatedProducts\<close>, is 3.
\<close>

theorem partial_failure_counterexample:
  "fst (updateProductPrices exact (JStr ''p2'') middle_product_empty 12) = [] \<and>
   status (fst (update_prices_handler exact middle_product_empty
      (post_ids [JStr ''p1'', JStr ''p2'', JStr ''p3'']))) = 200 \<and>
   payload_field (fst (update_prices_handler exact middle_product_empty
      (post_ids [JStr ''p1'', JStr ''p2'', JStr ''p3'']))) ''updatedProducts'' = Some (JNum 3) \<and>
   payload_field (fst (update_prices_handler exact middle_product_empty
      (post_ids [JStr ''p1'', JStr ''p2'', JStr ''p3'']))) ''productsSucceeded'' = None \<and>
   payload_field (fst (update_prices_handler exact middle_product_empty
      (post_ids [JStr ''p1'', JStr ''p2'', JStr ''p3'']))) ''productsFailed'' = None"
proof -
  have a: "fst (updateProductPrices exact (JStr ''p2'') middle_product_empty 12) = []"
    by (simp add: updateProductPrices_def stores_sim_def middle_product_empty_def d0_1_def)
  show ?thesis
    unfolding three_products_reply using a
    by (simp add: json_response_def payload_field_def)
qed

text \<open>
  C3 (as the code has it): for every array of product identifiers for which the logging of
  the notifications raises nothing (as whenever every product id is a string), the job
  answers with status 200 and a summary whose \<^verbatim>\<open>success\<close> is true, whose
  \<^verbatim>\<open>updatedProducts\<close> is the number of identifiers requested (whatever happened to each),
  whose \<^verbatim>\<open>priceUpdates\<close> and \<^verbatim>\<open>notifications\<close> are the numbers of updates and notifications
  that the job produced; it has no count of requested, succeeded or failed products under
  the names of the claim.
\<close>

theorem update_prices_summary:
  assumes "http_method req = ''POST''" "body req = Inr b"
    "field b ''productIds'' = Some (JArr pids)"
    "fst (sendPriceAlertNotifications (fst (snd (product_loop rd rnd pids 0 [] [])))) = None"
  shows "status (fst (update_prices_handler rd rnd req)) = 200 \<and>
     payload_field (fst (update_prices_handler rd rnd req)) ''success'' = Some (JBool True) \<and>
     payload_field (fst (update_prices_handler rd rnd req)) ''updatedProducts''
       = Some (JNum (real (length pids))) \<and>
     payload_field (fst (update_prices_handler rd rnd req)) ''priceUpdates''
       = Some (JNum (real (length (fst (product_loop rd rnd pids 0 [] []))))) \<and>
     payload_field (fst (update_prices_handler rd rnd req)) ''notifications''
       = Some (JNum (real (length (fst (snd (product_loop rd rnd pids 0 [] [])))))) \<and>
     payload_field (fst (update_prices_handler rd rnd req)) ''productsRequested'' = None \<and>
     payload_field (fst (update_prices_handler rd rnd req)) ''productsSucceeded'' = None \<and>
     payload_field (fst (update_prices_handler rd rnd req)) ''productsFailed'' = None"
  unfolding handler_array [OF assms]
  by (simp add: json_response_def payload_field_def)

theorem update_prices_summary_witness:
  "http_method (post_ids [JStr ''p1'', JStr ''p2'', JStr ''p3'']) = ''POST'' \<and>
   body (post_ids [JStr ''p1'', JStr ''p2'', JStr ''p3''])
     = Inr (JObj [(''productIds'', JArr [JStr ''p1'', JStr ''p2'', JStr ''p3''])]) \<and>
   field (JObj [(''productIds'', JArr [JStr ''p1'', JStr ''p2'', JStr ''p3''])]) ''productIds''
     = Some (JArr [JStr ''p1'', JStr ''p2'', JStr ''p3'']) \<and>
   fst (sendPriceAlertNotifications (fst (snd
      (product_loop exact middle_product_empty [JStr ''p1'', JStr ''p2'', JStr ''p3''] 0 [] []))))
     = None \<and>
   status (fst (update_prices_handler exact middle_product_empty
      (post_ids [JStr ''p1'', JStr ''p2'', JStr ''p3'']))) = 200 \<and>
   payload_field (fst (update_prices_handler exact middle_product_empty
      (post_ids [JStr ''p1'', JStr ''p2'', JStr ''p3'']))) ''updatedProducts''
     = Some (JNum (real (length [JStr ''p1'', JStr ''p2'', JStr ''p3''])))"
proof -
  have h1: "http_method (post_ids [JStr ''p1'', JStr ''p2'', JStr ''p3'']) = ''POST''"
    by (simp add: post_ids_def)
  have h2: "body (post_ids [JStr ''p1'', JStr ''p2'', JStr ''p3''])
     = Inr (JObj [(''productIds'', JArr [JStr ''p1'', JStr ''p2'', JStr ''p3''])])"
    by (simp add: post_ids_def)
  have h3: "field (JObj [(''productIds'', JArr [JStr ''p1'', JStr ''p2'', JStr ''p3''])])
      ''productIds'' = Some (JArr [JStr ''p1'', JStr ''p2'', JStr ''p3''])"
    by simp
  note h4 = three_products_send [of exact middle_product_empty]
  from update_prices_summary [OF h1 h2 h3 h4] h1 h2 h3 h4
  show ?thesis by blast
qed

text \<open>
  C6, as stated, fails on the code: a request whose product id list is the empty array is
  answered with status 200 and \<^verbatim>\<open>success: true\<close>, not with an error.
\<close>

theorem empty_product_ids_counterexample:
  "status (fst (update_prices_handler exact every_store_drops (post_ids []))) = 200 \<and>
   payload_field (fst (update_prices_handler exact every_store_drops (post_ids []))) ''success''
     = Some (JBool True)"
  by (simp add: update_prices_handler_def destructure_def json_response_def post_ids_def
      payload_field_def)

text \<open>
  C6 (as the code has it): for every POST request whose body parses to a value other than
  \<^verbatim>\<open>null\<close>, a product id list that is missing or is not an array is answered with status
  400 and the error ``Product IDs array is required''; an empty array is accepted and
  answered with status 200, \<^verbatim>\<open>success: true\<close> and zero updated products.
\<close>

theorem product_ids_validation:
  assumes "http_method req = ''POST''" "body req = Inr b" "b \<noteq> JNull"
  shows "(\<not> isArray (field b ''productIds'') \<longrightarrow>
            status (fst (update_prices_handler rd rnd req)) = 400 \<and>
            payload_field (fst (update_prices_handler rd rnd req)) ''error''
              = Some (JStr ''Product IDs array is required'')) \<and>
         (field b ''productIds'' = Some (JArr []) \<longrightarrow>
            status (fst (update_prices_handler rd rnd req)) = 200 \<and>
            payload_field (fst (update_prices_handler rd rnd req)) ''success''
              = Some (JBool True) \<and>
            payload_field (fst (update_prices_handler rd rnd req)) ''updatedProducts''
              = Some (JNum 0))"
proof (intro conjI impI)
  assume na: "\<not> isArray (field b ''productIds'')"
  from assms(3) have d: "destructure (Inr b) ''productIds'' = Inr (field b ''productIds'')"
    by (cases b) (simp_all add: destructure_def)
  have r: "fst (update_prices_handler rd rnd req)
      = json_response 400 (JObj [(''error'', JStr ''Product IDs array is required'')])"
    using assms(1,2) d na by (simp add: update_prices_handler_def)
  show "status (fst (update_prices_handler rd rnd req)) = 400"
    unfolding r by (simp add: json_response_def)
  show "payload_field (fst (update_prices_handler rd rnd req)) ''error''
              = Some (JStr ''Product IDs array is required'')"
    unfolding r by (simp add: json_response_def payload_field_def)
next
  assume e: "field b ''productIds'' = Some (JArr [])"
  have s: "fst (sendPriceAlertNotifications (fst (snd (product_loop rd rnd [] 0 [] [])))) = None"
    by (rule send_strings_ok) simp
  note r = handler_array [OF assms(1,2) e s]
  show "status (fst (update_prices_handler rd rnd req)) = 200"
    unfolding r by (simp add: json_response_def)
  show "payload_field (fst (update_prices_handler rd rnd req)) ''success'' = Some (JBool True)"
    unfolding r by (simp add: json_response_def payload_field_def)
  show "payload_field (fst (update_prices_handler rd rnd req)) ''updatedProducts''
              = Some (JNum 0)"
    unfolding r by (simp add: json_response_def payload_field_def)
qed

theorem product_ids_validation_witness:
  "status (fst (update_prices_handler exact every_store_drops
      \<lparr>http_method = ''POST'', body = Inr (JObj [])\<rparr>)) = 400 \<and>
   status (fst (update_prices_handler exact every_store_drops
      \<lparr>http_method = ''POST'', body = Inr (JObj [(''productIds'', JStr ''p1'')])\<rparr>)) = 400 \<and>
   status (fst (update_prices_handler exact every_store_drops
      \<lparr>http_method = ''POST'', body = Inr (JObj [(''productIds'', JArr [])])\<rparr>)) = 200"
proof -
  have missing: "\<not> isArray (field (JObj []) ''productIds'')" by simp
  have not_array: "\<not> isArray (field (JObj [(''productIds'', JStr ''p1'')]) ''productIds'')"
    by simp
  have empty: "field (JObj [(''productIds'', JArr [])]) ''productIds'' = Some (JArr [])"
    by simp
  have a: "status (fst (update_prices_handler exact every_store_drops
      \<lparr>http_method = ''POST'', body = Inr (JObj [])\<rparr>)) = 400"
    using product_ids_validation
      [where req = "\<lparr>http_method = ''POST'', body = Inr (JObj [])\<rparr>" and b = "JObj []"
         and rd = exact and rnd = every_store_drops]
      missing by simp
  have b: "status (fst (update_prices_handler exact every_store_drops
      \<lparr>http_method = ''POST'', body = Inr (JObj [(''productIds'', JStr ''p1'')])\<rparr>)) = 400"
    using product_ids_validation
      [where req = "\<lparr>http_method = ''POST'', body = Inr (JObj [(''productIds'', JStr ''p1'')])\<rparr>"
         and b = "JObj [(''productIds'', JStr ''p1'')]" and rd = exact
         and rnd = every_store_drops]
      not_array by simp
  have c: "status (fst (update_prices_handler exact every_store_drops
      \<lparr>http_method = ''POST'', body = Inr (JObj [(''productIds'', JArr [])])\<rparr>)) = 200"
    using product_ids_validation
      [where req = "\<lparr>http_method = ''POST'', body = Inr (JObj [(''productIds'', JArr [])])\<rparr>"
         and b = "JObj [(''productIds'', JArr [])]" and rd = exact and rnd = every_store_drops]
      empty by simp
  from a b c show ?thesis by blast
qed

section \<open>Failures of single stores in scrape-prices\<close>

text \<open>
  As long as every store entry converts to a string, the loop contains each failure: it
  returns, and what it collected is what the stores whose scrape returned have given.
\<close>

lemma scrape_loop_contained:
  assumes "\<forall>st \<in> set sts. \<not> to_string_throws st"
  shows "\<exists>logs' n'. scrape_loop enc rd rnd pn mx sts n res logs
     = Inr (res @ contained_quotes enc rd rnd pn mx sts n, logs', n')"
  using assms
proof (induction sts arbitrary: n res logs)
  case Nil
  show ?case by simp
next
  case (Cons st rest)
  obtain r n1 where s: "scrapeStore enc rd rnd st pn mx n = (r, n1)"
    by (cases "scrapeStore enc rd rnd st pn mx n")
  from Cons.prems have st: "\<not> to_string_throws st"
    and rest: "\<forall>st \<in> set rest. \<not> to_string_throws st" by simp_all
  show ?case
  proof (cases r)
    case (Inl e)
    from Cons.IH [OF rest, of n1 res "logs @ [ErrorScraping st e]"] s Inl st
    show ?thesis by simp
  next
    case (Inr qs)
    from Cons.IH [OF rest, of n1 "res @ qs" logs] s Inr
    show ?thesis by simp
  qed
qed

lemma slice0_single: "length (slice0 [x] k) \<le> 1" "k \<le> 0 \<Longrightarrow> slice0 [x] k = []"
  by (simp_all add: slice0_def)

lemma mock_scrape_quotes:
  assumes "mock_scrape name scale base suffix prefix ship enc rd rnd pn mx n = (Inr qs, n')"
  shows "length qs \<le> 1 \<and> (mx \<le> 0 \<longrightarrow> qs = [])"
  using assms slice0_single
  by (auto simp: mock_scrape_def split: option.splits)

lemma scrapeStore_quotes:
  assumes "scrapeStore enc rd rnd st pn mx n = (Inr qs, n')"
  shows "length qs \<le> 1 \<and> (mx \<le> 0 \<longrightarrow> qs = [])"
proof (cases st)
  case (JStr s)
  with assms show ?thesis
    by (auto simp: scrapeStore_def scrapeAmazon_def scrapeWalmart_def scrapeTarget_def
        scrapeBestBuy_def Let_def split: if_splits dest: mock_scrape_quotes)
qed (use assms in \<open>simp_all add: scrapeStore_def\<close>)

lemma contained_quotes_length:
  "length (contained_quotes enc rd rnd pn mx sts n) \<le> length sts"
proof (induction sts arbitrary: n)
  case Nil
  show ?case by simp
next
  case (Cons st rest)
  obtain r n' where s: "scrapeStore enc rd rnd st pn mx n = (r, n')"
    by (cases "scrapeStore enc rd rnd st pn mx n")
  show ?case
  proof (cases r)
    case (Inl e)
    with s Cons.IH [of n'] show ?thesis by simp
  next
    case (Inr qs)
    with s scrapeStore_quotes [of enc rd rnd st pn mx n qs n'] have "length qs \<le> 1" by simp
    with Inr s Cons.IH [of n'] show ?thesis by simp
  qed
qed

lemma contained_quotes_nonpositive:
  "mx \<le> 0 \<Longrightarrow> contained_quotes enc rd rnd pn mx sts n = []"
proof (induction sts arbitrary: n)
  case Nil
  show ?case by simp
next
  case (Cons st rest)
  obtain r n' where s: "scrapeStore enc rd rnd st pn mx n = (r, n')"
    by (cases "scrapeStore enc rd rnd st pn mx n")
  show ?case
  proof (cases r)
    case (Inl e)
    with s Cons show ?thesis by simp
  next
    case (Inr qs)
    with s scrapeStore_quotes [of enc rd rnd st pn mx n qs n'] Cons.prems have "qs = []"
      by simp
    with Inr s Cons show ?thesis by simp
  qed
qed

lemma slice0_all: "int (length xs) \<le> k \<Longrightarrow> slice0 xs k = xs"
  by (simp add: slice0_def)

text \<open>The final \<^verbatim>\<open>slice\<close> of the handler never cuts a collected quote.\<close>

lemma slice0_contained:
  "slice0 (contained_quotes enc rd rnd pn mx sts n) (mx * int (length sts))
     = contained_quotes enc rd rnd pn mx sts n"
proof (cases "mx \<le> 0")
  case True
  then show ?thesis by (simp add: contained_quotes_nonpositive slice0_def)
next
  case False
  then have "1 \<le> mx" by simp
  then have "1 * int (length sts) \<le> mx * int (length sts)"
    by (intro mult_right_mono) simp_all
  moreover have "int (length (contained_quotes enc rd rnd pn mx sts n)) \<le> int (length sts)"
    using contained_quotes_length [of enc rd rnd pn mx sts n] by simp
  ultimately show ?thesis by (intro slice0_all) simp
qed

text \<open>
  So for store entries that convert to strings (all strings do) the handler answers with
  status 200 and the quotes of the stores that did not fail.
\<close>

lemma scrape_handler_ok:
  assumes "productName req = Some pn" "pn \<noteq> []"
    "\<forall>st \<in> set (stores_of req). \<not> to_string_throws st"
  shows "fst (scrape_prices_handler enc rd rnd ''POST'' (Inr req)) =
     json_response 200
       (JObj [(''success'', JBool True), (''productName'', JStr pn),
              (''results'', JArr (map json_of_result
                 (contained_quotes enc rd rnd pn (maxResults_of req) (stores_of req) 0))),
              (''totalResults'', JNum (real (length
                 (contained_quotes enc rd rnd pn (maxResults_of req) (stores_of req) 0))))])"
proof -
  from scrape_loop_contained [OF assms(3), of enc rd rnd pn "maxResults_of req" 0 "[]" "[]"]
  obtain logs n where
    "scrape_loop enc rd rnd pn (maxResults_of req) (stores_of req) 0 [] []
       = Inr (contained_quotes enc rd rnd pn (maxResults_of req) (stores_of req) 0, logs, n)"
    by auto
  then show ?thesis
    using assms(1,2)
    by (simp add: scrape_prices_handler_def Let_def slice0_contained)
qed

lemma amazon_quote:
  "scrapeStore Some exact halves (JStr ''amazon'') ''tv'' 5 0
     = (Inr [\<lparr>store = ''Amazon'', price_r = 350, title = ''tv - Amazon Choice'',
              url = ''https://amazon.com/search?k=tv'', availability = ''in_stock'',
              shipping = 0\<rparr>], 1)"
  by (simp add: scrapeStore_def toLowerCase_def lower_char_def scrapeAmazon_def mock_scrape_def
      slice0_def exact_def halves_def)

text \<open>
  C7 fails on the code for a store entry that cannot be converted to a string. For the
  request with the stores \<^verbatim>\<open>["amazon", {"toString": 1}, "target"]\<close> the scrape of Amazon
  returns a quote; the scrape of the second entry raises and is caught, but the log line of
  the \<^verbatim>\<open>catch\<close> raises in turn, the loop is left, and the whole batch is answered with
  status 500 and without any result: the failure of one store is not contained, against the
  comment of the loop (``Continue with other stores even if one fails'').
\<close>

theorem object_store_entry_fails_batch:
  "fst (scrapeStore Some exact halves (JStr ''amazon'') ''tv'' 5 0)
     = Inr [\<lparr>store = ''Amazon'', price_r = 350, title = ''tv - Amazon Choice'',
             url = ''https://amazon.com/search?k=tv'', availability = ''in_stock'',
             shipping = 0\<rparr>] \<and>
   fst (scrapeStore Some exact halves (JObj [(''toString'', JNum 1)]) ''tv'' 5 1)
     = Inl (TypeError ''store.toLowerCase is not a function'') \<and>
   status (fst (scrape_prices_handler Some exact halves ''POST'' (Inr object_store_request)))
     = 500 \<and>
   payload_field (fst (scrape_prices_handler Some exact halves ''POST''
      (Inr object_store_request))) ''success'' = Some (JBool False) \<and>
   payload_field (fst (scrape_prices_handler Some exact halves ''POST''
      (Inr object_store_request))) ''error'' = Some (JStr ''Failed to scrape prices'') \<and>
   payload_field (fst (scrape_prices_handler Some exact halves ''POST''
      (Inr object_store_request))) ''results'' = None"
proof -
  have o: "scrapeStore Some exact halves (JObj [(''toString'', JNum 1)]) ''tv'' 5 n
      = (Inl (TypeError ''store.toLowerCase is not a function''), n)" for n
    by (simp add: scrapeStore_def)
  have l: "scrape_loop Some exact halves ''tv'' 5
      [JStr ''amazon'', JObj [(''toString'', JNum 1)], JStr ''target''] 0 [] []
      = Inl (not_primitive, [])"
    by (simp add: amazon_quote o)
  have r: "fst (scrape_prices_handler Some exact halves ''POST'' (Inr object_store_request))
      = failure_500 ''Failed to scrape prices'' (message not_primitive)"
    by (simp add: scrape_prices_handler_def object_store_request_def stores_of_def
        maxResults_of_def l del: scrape_loop.simps)
  show ?thesis
    unfolding r by (simp add: amazon_quote o failure_500_def json_response_def payload_field_def)
qed

section \<open>Alerts with a non-positive target price\<close>

text \<open>Every row that \<^verbatim>\<open>createPriceAlert\<close> adds to the table has a positive target price.\<close>

lemma created_alert_positive:
  "r \<in> set (price_alerts (createPriceAlert env pg)) \<Longrightarrow>
     r \<in> set (price_alerts pg) \<or> 0 < target_price r"
  by (auto simp: createPriceAlert_def split: option.splits if_splits)





section \<open>The product type of a search\<close>

lemma startsWith_iff: "startsWith s t \<longleftrightarrow> (\<exists>r. s = t @ r)"
  by (induction s t rule: startsWith.induct) auto

text \<open>\<open>includes_str\<close> is containment as a contiguous piece.\<close>

lemma includes_str_iff: "includes_str s t \<longleftrightarrow> (\<exists>p r. s = p @ t @ r)"
proof (induction s)
  case Nil
  then show ?case by auto
next
  case (Cons x s)
  show ?case
  proof
    assume "includes_str (x # s) t"
    then consider "startsWith (x # s) t" | "includes_str s t" by auto
    then show "\<exists>p r. x # s = p @ t @ r"
    proof cases
      case 1
      then obtain r where "x # s = t @ r" by (auto simp: startsWith_iff)
      then have "x # s = [] @ t @ r" by simp
      then show ?thesis by blast
    next
      case 2
      with Cons obtain p r where "s = p @ t @ r" by auto
      then have "x # s = (x # p) @ t @ r" by simp
      then show ?thesis by blast
    qed
  next
    assume "\<exists>p r. x # s = p @ t @ r"
    then obtain p r where e: "x # s = p @ t @ r" by auto
    show "includes_str (x # s) t"
    proof (cases p)
      case Nil
      with e have "startsWith (x # s) t" by (auto simp: startsWith_iff)
      then show ?thesis by simp
    next
      case (Cons y p')
      with e have "s = p' @ t @ r" by simp
      with Cons.IH have "includes_str s t" by blast
      then show ?thesis by simp
    qed
  qed
qed

lemma first_included_Some:
  "first_included q xs = Some t \<Longrightarrow> t \<in> set xs \<and> includes_str q t"
  by (induction xs) (auto split: if_splits)

lemma first_included_None:
  "first_included q xs = None \<Longrightarrow> \<forall>t \<in> set xs. \<not> includes_str q t"
  by (induction xs) (auto split: if_splits)

lemma laptop_query:
  "productType (analyzeSearchIntent (\<lambda>p q. None) (\<lambda>s. 0) ''Cheap Gaming LAPTOP'') = ''laptop''"
  by (simp add: analyzeSearchIntent_def extractProductType_def Let_def productTypes_def
      toLowerCase_def lower_char_def)

text \<open>
  C9: for every query the analysis returns the record of the five fields \<^verbatim>\<open>productType\<close>,
  \<^verbatim>\<open>brand\<close>, \<^verbatim>\<open>priceRange\<close>, \<^verbatim>\<open>features\<close> and \<^verbatim>\<open>category\<close>, each computed from the
  lowercased query; \<^verbatim>\<open>productType\<close> is one of the known product types and is contained in
  the lowercased query, or it is \<^verbatim>\<open>general\<close> and no known product type is contained in it.
\<close>

theorem analyzeSearchIntent_productType:
  "analyzeSearchIntent rmatch parseInt query =
     \<lparr>productType = productType (analyzeSearchIntent rmatch parseInt query),
      brand = extractBrand (toLowerCase query),
      priceRange = extractPriceRange rmatch parseInt (toLowerCase query),
      features = extractFeatures (toLowerCase query),
      category = extractCategory (toLowerCase query)\<rparr> \<and>
   (productType (analyzeSearchIntent rmatch parseInt query) \<in> set productTypes \<and>
      includes_str (toLowerCase query) (productType (analyzeSearchIntent rmatch parseInt query))
    \<or> productType (analyzeSearchIntent rmatch parseInt query) = ''general'' \<and>
      (\<forall>t \<in> set productTypes. \<not> includes_str (toLowerCase query) t))"
proof (cases "first_included (toLowerCase query) productTypes")
  case None
  from first_included_None [OF this] None show ?thesis
    by (simp add: analyzeSearchIntent_def extractProductType_def Let_def)
next
  case (Some t)
  from first_included_Some [OF this] Some show ?thesis
    by (simp add: analyzeSearchIntent_def extractProductType_def Let_def)
qed

theorem analyzeSearchIntent_productType_witness:
  "productType (analyzeSearchIntent (\<lambda>p q. None) (\<lambda>s. 0) ''Cheap Gaming LAPTOP'') = ''laptop'' \<and>
   productType (analyzeSearchIntent (\<lambda>p q. None) (\<lambda>s. 0) ''Cheap Gaming LAPTOP'')
     \<in> set productTypes \<and>
   includes_str (toLowerCase ''Cheap Gaming LAPTOP'')
     (productType (analyzeSearchIntent (\<lambda>p q. None) (\<lambda>s. 0) ''Cheap Gaming LAPTOP''))"
proof -
  have "productType (analyzeSearchIntent (\<lambda>p q. None) (\<lambda>s. 0) ''Cheap Gaming LAPTOP'')
      \<noteq> ''general''"
    by (simp add: laptop_query)
  with analyzeSearchIntent_productType [of "\<lambda>p q. None" "\<lambda>s. 0" "''Cheap Gaming LAPTOP''"]
    laptop_query
  show ?thesis by blast
qed

section \<open>The lowest price shown by the pages\<close>

lemma three_rows_lowest: "getLowestPrice three_rows = Some 20"
  by (simp add: getLowestPrice_def three_rows_def)

text \<open>
  C10: \<^verbatim>\<open>getLowestPrice\<close> returns \<^verbatim>\<open>null\<close> for no rows and otherwise the minimum of the prices
  of the rows; whenever a page shows a best price, it is that minimum of a non-empty list
  of rows, and for no rows the cards show nothing and the details page shows ``N/A''.
\<close>

theorem getLowestPrice_minimum:
  "getLowestPrice [] = None \<and>
   (prices \<noteq> [] \<longrightarrow> getLowestPrice prices = Some (Min (set (map price prices)))) \<and>
   (best_badge prices = Best p \<longrightarrow> prices \<noteq> [] \<and> p = Min (set (map price prices))) \<and>
   (lowest_price_text prices = Best p \<longrightarrow> prices \<noteq> [] \<and> p = Min (set (map price prices))) \<and>
   best_badge [] = Nothing \<and> lowest_price_text [] = NotAvailable"
proof -
  have m: "getLowestPrice prices = Some (Min (set (map price prices)))" if "prices \<noteq> []"
  proof -
    from that obtain x xs where e: "map price prices = x # xs" by (cases prices) auto
    have "Min (set (x # xs)) = fold min xs x" by (rule Min.set_eq_fold)
    then have "fold min xs x = Min (set (map price prices))" by (simp only: e)
    then show ?thesis by (simp add: getLowestPrice_def e)
  qed
  have n: "getLowestPrice [] = None" by (simp add: getLowestPrice_def)
  show ?thesis
    using m n
    by (cases "prices = []") (auto simp: best_badge_def lowest_price_text_def split: if_splits)
qed

theorem getLowestPrice_minimum_witness:
  "three_rows \<noteq> [] \<and>
   getLowestPrice three_rows = Some 20 \<and>
   getLowestPrice three_rows = Some (Min (set (map price three_rows))) \<and>
   best_badge three_rows = Best 20 \<and>
   20 = Min (set (map price three_rows))"
proof -
  have h1: "three_rows \<noteq> []" by (simp add: three_rows_def)
  have h2: "best_badge three_rows = Best 20" by (simp add: best_badge_def three_rows_lowest)
  from getLowestPrice_minimum [of three_rows 20] h1 h2 three_rows_lowest
  show ?thesis by blast
qed

end
